theory Spec2Isabelle
  imports Main "HOL-Library.Sublist"
begin

section \<open>Python values used by streamlit\_app.py\<close>

text \<open>
  Strings are byte lists in UTF-8. The two markers of the status strings are not ASCII:
  U+2705 (white heavy check mark) and U+274C (cross mark).
\<close>

definition check_mark :: string where
  "check_mark = [CHR 0xE2, CHR 0x9C, CHR 0x85]"

definition cross_mark :: string where
  "cross_mark = [CHR 0xE2, CHR 0x9D, CHR 0x8C]"

text \<open>
  An exception is an instance of a subclass of Python's \<open>Exception\<close>: its class name and
  the text \<open>str(e)\<close> gives. These are the exceptions \<open>requests\<close>, \<open>open\<close>, \<open>json\<close> and the
  agent runner raise, and the ones \<open>except Exception\<close> catches. \<open>KeyboardInterrupt\<close> and
  \<open>SystemExit\<close> are no subclasses of \<open>Exception\<close> and are not raised by the calls below.
\<close>

datatype py_exception = PyException string string

fun py_str :: "py_exception \<Rightarrow> string" where
  "py_str (PyException cls msg) = msg"

text \<open>\<open>str(n)\<close> for a Python int: decimal digits, with a minus sign when negative.\<close>

definition digit_char :: "nat \<Rightarrow> char" where
  "digit_char n = ''0123456789'' ! (n mod 10)"

fun str_nat :: "nat \<Rightarrow> string" where
  "str_nat n = (if n < 10 then [digit_char n] else str_nat (n div 10) @ [digit_char n])"

definition str_int :: "int \<Rightarrow> string" where
  "str_int i = (if i < 0 then CHR ''-'' # str_nat (nat (- i)) else str_nat (nat i))"

text \<open>
  The values \<open>json.load\<close> returns and \<open>json.dump\<close> accepts. A dict keeps its insertion order.
  A float is kept as the text \<open>repr\<close> prints for it (\<open>1.5\<close>, \<open>1e+16\<close>, \<open>nan\<close>): no function
  of this theory computes with it.
\<close>

datatype json =
    JNull
  | JBool bool
  | JNum int
  | JFloat string
  | JStr string
  | JList "json list"
  | JDict "(string \<times> json) list"

fun py_type_name :: "json \<Rightarrow> string" where
  "py_type_name JNull = ''NoneType''"
| "py_type_name (JBool b) = ''bool''"
| "py_type_name (JNum n) = ''int''"
| "py_type_name (JFloat r) = ''float''"
| "py_type_name (JStr s) = ''str''"
| "py_type_name (JList xs) = ''list''"
| "py_type_name (JDict kvs) = ''dict''"

text \<open>\<open>data.append(x)\<close>: only a list has the method; anything else raises AttributeError.\<close>

fun py_append :: "json \<Rightarrow> json \<Rightarrow> py_exception + json" where
  "py_append (JList xs) x = Inr (JList (xs @ [x]))"
| "py_append v x =
     Inl (PyException ''AttributeError''
            ([CHR 0x27] @ py_type_name v @ [CHR 0x27] @ '' object has no attribute ''
             @ [CHR 0x27] @ ''append'' @ [CHR 0x27]))"

section \<open>The world outside the program\<close>

text \<open>
  The file \<open>appointments.json\<close>. Its text is kept as what \<open>json.load\<close> makes of it: the value
  it denotes together with how \<open>json.dump\<close> laid it out (\<open>indent=n\<close>, or some other layout
  for a file this program did not write), or, for text that is no JSON document, the message
  of the JSONDecodeError that \<open>json.load\<close> raises on it.
\<close>

datatype layout = Indent nat | Other_layout

datatype file_state =
    Missing
  | Holds layout json
  | Corrupt string

record http_request =
  url :: string
  headers :: "(string \<times> string) list"
  json_body :: json

record response =
  status_code :: int

datatype http_outcome = Responded int | Raised py_exception

text \<open>
  The state the tools act on: the appointments file, the lines printed to standard output,
  and the calls to \<open>requests.post\<close> made so far (one entry per call).
\<close>

record world =
  appointments_file :: file_state
  stdout :: "string list"
  post_calls :: "http_request list"

text \<open>
  What the network and the operating system do during one tool call:
  \<^item> \<open>http\<close>: the status the webhook answers with, or the exception the transport raises;
  \<^item> \<open>open_read\<close>: the exception \<open>open(file)\<close> raises, if any;
  \<^item> \<open>open_write\<close>: the exception \<open>open(file, "w")\<close> raises, if any (the file is untouched);
  \<^item> \<open>dump_fault\<close>: the exception raised while \<open>json.dump\<close> writes into the file that
    \<open>open(file, "w")\<close> has already truncated (a full disk), with the JSONDecodeError message
    of the partial text left behind;
  \<^item> \<open>print_fault\<close>: the exception \<open>print\<close> raises, if any (standard output on a full disk or
    a closed pipe); nothing is printed then.
\<close>

record env =
  http :: "http_request \<Rightarrow> http_outcome"
  open_read :: "py_exception option"
  open_write :: "py_exception option"
  dump_fault :: "(py_exception \<times> string) option"
  print_fault :: "py_exception option"

subsection \<open>Statements that may raise, over the world\<close>

type_synonym 'a py = "world \<Rightarrow> (py_exception + 'a) \<times> world"

definition py_return :: "'a \<Rightarrow> 'a py" where
  "py_return v w = (Inr v, w)"

definition py_bind :: "'a py \<Rightarrow> ('a \<Rightarrow> 'b py) \<Rightarrow> 'b py" where
  "py_bind m f w = (case m w of (Inl x, w') \<Rightarrow> (Inl x, w') | (Inr v, w') \<Rightarrow> f v w')"

text \<open>\<open>try: body  except Exception as e: handler\<close>.\<close>

definition try_except :: "'a py \<Rightarrow> (py_exception \<Rightarrow> 'a py) \<Rightarrow> 'a py" where
  "try_except body handler w =
     (case body w of (Inl x, w') \<Rightarrow> handler x w' | (Inr v, w') \<Rightarrow> (Inr v, w'))"

section \<open>The function tools\<close>

subsection \<open>get\_doctors\<close>

record doctor =
  specialty :: string
  availability :: "(string \<times> (string \<times> string) list) list"

definition get_doctors :: "(string \<times> doctor) list" where
  "get_doctors =
     [(''Dr. Khan'',
        \<lparr>specialty = ''Dermatologist'',
         availability =
           [(''Monday to Friday'',
               [(''Morning'', ''10:00 AM - 2:00 PM''),
                (''Evening'', ''7:00 PM - 10:00 PM'')])]\<rparr>),
      (''Dr. Ahmed'',
        \<lparr>specialty = ''Neurologist'',
         availability =
           [(''Monday to Friday'',
               [(''Evening'', ''7:00 PM - 11:00 PM'')]),
            (''Saturday'',
               [(''Morning'', ''10:00 AM - 2:00 PM''),
                (''Evening'', ''7:00 PM - 11:00 PM'')])]\<rparr>)]"

subsection \<open>send\_doctor\_request\<close>

definition VERCEL_WEBHOOK_URL :: string where
  "VERCEL_WEBHOOK_URL = ''https://giaic-q4.vercel.app/set-appointment''"

text \<open>\<open>requests.post(url, headers=..., json=...)\<close>: one call, recorded in \<open>post_calls\<close>.\<close>

definition requests_post ::
  "env \<Rightarrow> string \<Rightarrow> (string \<times> string) list \<Rightarrow> json \<Rightarrow> response py" where
  "requests_post e u hs body w =
     (let req = \<lparr>url = u, headers = hs, json_body = body\<rparr>;
          w' = w\<lparr>post_calls := post_calls w @ [req]\<rparr>
      in case http e req of
           Responded code \<Rightarrow> (Inr \<lparr>status_code = code\<rparr>, w')
         | Raised x \<Rightarrow> (Inl x, w'))"

definition send_doctor_request ::
  "env \<Rightarrow> string \<Rightarrow> string \<Rightarrow> string \<Rightarrow> string \<Rightarrow> string py" where
  "send_doctor_request e patient_name doctor_name date time =
     try_except
       (let payload = JDict [(''patient_name'', JStr patient_name),
                             (''doctor_name'', JStr doctor_name),
                             (''date'', JStr date),
                             (''time'', JStr time)]
        in py_bind
             (requests_post e VERCEL_WEBHOOK_URL
                [(''Content-Type'', ''application/json'')] payload)
             (\<lambda>response.
                if status_code response = 200
                then py_return (check_mark @ '' Doctor notified via webhook!'')
                else py_return (cross_mark @ '' Doctor notification failed (status code ''
                                  @ str_int (status_code response) @ '')'')))
       (\<lambda>x. py_return (cross_mark @ '' Webhook error: '' @ py_str x))"

text \<open>The request lines 81 to 91 build from the four arguments.\<close>

definition webhook_request :: "string \<Rightarrow> string \<Rightarrow> string \<Rightarrow> string \<Rightarrow> http_request" where
  "webhook_request patient_name doctor_name date time =
     \<lparr>url = VERCEL_WEBHOOK_URL,
      headers = [(''Content-Type'', ''application/json'')],
      json_body = JDict [(''patient_name'', JStr patient_name),
                         (''doctor_name'', JStr doctor_name),
                         (''date'', JStr date),
                         (''time'', JStr time)]\<rparr>"

subsection \<open>save\_to\_json and confirm\_patient\<close>

text \<open>\<open>json.load(open(file))\<close>.\<close>

definition json_load_open :: "env \<Rightarrow> json py" where
  "json_load_open e w =
     (case open_read e of
        Some x \<Rightarrow> (Inl x, w)
      | None \<Rightarrow>
          (case appointments_file w of
             Missing \<Rightarrow>
               (Inl (PyException ''FileNotFoundError''
                       (''[Errno 2] No such file or directory: ''
                        @ [CHR 0x27] @ ''appointments.json'' @ [CHR 0x27])), w)
           | Holds lay v \<Rightarrow> (Inr v, w)
           | Corrupt msg \<Rightarrow> (Inl (PyException ''JSONDecodeError'' msg), w)))"

text \<open>\<open>with open(file, "w") as f: json.dump(data, f, indent=2)\<close>.\<close>

definition json_dump_open :: "env \<Rightarrow> json \<Rightarrow> unit py" where
  "json_dump_open e data w =
     (case open_write e of
        Some x \<Rightarrow> (Inl x, w)
      | None \<Rightarrow>
          (case dump_fault e of
             Some (x, left) \<Rightarrow> (Inl x, w\<lparr>appointments_file := Corrupt left\<rparr>)
           | None \<Rightarrow> (Inr (), w\<lparr>appointments_file := Holds (Indent 2) data\<rparr>)))"

definition appointment_record :: "string \<times> string \<times> string \<times> string \<Rightarrow> json" where
  "appointment_record a =
     (case a of (patient_name, doctor_name, date, time) \<Rightarrow>
        JDict [(''patient'', JStr patient_name), (''doctor'', JStr doctor_name),
               (''date'', JStr date), (''time'', JStr time)])"

text \<open>The body of the \<open>try\<close> of save\_to\_json (lines 113 to 116).\<close>

definition save_to_json_try ::
  "env \<Rightarrow> string \<Rightarrow> string \<Rightarrow> string \<Rightarrow> string \<Rightarrow> unit py" where
  "save_to_json_try e patient_name doctor_name date time =
     (let rec = appointment_record (patient_name, doctor_name, date, time)
      in py_bind
           (\<lambda>w. if appointments_file w \<noteq> Missing then json_load_open e w
                else (Inr (JList []), w))
           (\<lambda>data w.
              case py_append data rec of
                Inl x \<Rightarrow> (Inl x, w)
              | Inr data' \<Rightarrow> json_dump_open e data' w))"

text \<open>\<open>print(line)\<close>.\<close>

definition py_print :: "env \<Rightarrow> string \<Rightarrow> unit py" where
  "py_print e line w =
     (case print_fault e of
        Some x \<Rightarrow> (Inl x, w)
      | None \<Rightarrow> (Inr (), w\<lparr>stdout := stdout w @ [line]\<rparr>))"

text \<open>
  An exception raised in the \<open>try\<close> is handled by printing it. An exception raised by that
  \<open>print\<close> is raised inside the handler, so it leaves save\_to\_json.
\<close>

definition save_to_json ::
  "env \<Rightarrow> string \<Rightarrow> string \<Rightarrow> string \<Rightarrow> string \<Rightarrow> unit py" where
  "save_to_json e patient_name doctor_name date time =
     try_except
       (save_to_json_try e patient_name doctor_name date time)
       (\<lambda>x. py_print e (''JSON save error: '' @ py_str x))"

definition confirm_patient ::
  "env \<Rightarrow> string \<Rightarrow> string \<Rightarrow> string \<Rightarrow> string \<Rightarrow> string py" where
  "confirm_patient e patient_name doctor_name date time =
     try_except
       (let message = check_mark @ '' Hello '' @ patient_name
                      @ '', your appointment with '' @ doctor_name
                      @ '' is confirmed on '' @ date @ '' at '' @ time @ ''.''
        in py_bind
             (save_to_json e patient_name doctor_name date time)
             (\<lambda>u. py_return
                     (check_mark
                      @ '' Patient notified via WhatsApp (via webhook confirmation).'')))
       (\<lambda>x. py_return (cross_mark @ '' Failed to notify patient: '' @ py_str x))"

subsection \<open>The tools the agent may call (\<open>tools=[...]\<close>, line 156)\<close>

datatype tool_call =
    Get_doctors
  | Send_doctor_request string string string string
  | Confirm_patient string string string string

datatype tool_output = Directory "(string \<times> doctor) list" | Status string

fun call_tool :: "env \<Rightarrow> tool_call \<Rightarrow> tool_output py" where
  "call_tool e Get_doctors = py_return (Directory get_doctors)"
| "call_tool e (Send_doctor_request p d dt t) =
     py_bind (send_doctor_request e p d dt t) (\<lambda>s. py_return (Status s))"
| "call_tool e (Confirm_patient p d dt t) =
     py_bind (confirm_patient e p d dt t) (\<lambda>s. py_return (Status s))"

subsection \<open>Sequences of bookings and the stored collection\<close>

text \<open>
  The collection save\_to\_json starts from (line 113): the empty list when the file does not
  exist, the list the file holds otherwise. A file that holds no list has no collection.
\<close>

definition stored :: "world \<Rightarrow> json list option" where
  "stored w =
     (case appointments_file w of
        Missing \<Rightarrow> Some []
      | Holds lay v \<Rightarrow> (case v of JList xs \<Rightarrow> Some xs | _ \<Rightarrow> None)
      | Corrupt msg \<Rightarrow> None)"

text \<open>
  A sequence of tool calls, each with the behaviour of the outside during that call; the
  bookings its confirm\_patient calls were made with, in order; and whether every one of
  these calls got through the \<open>try\<close> of save\_to\_json.
\<close>

type_synonym booking = "string \<times> string \<times> string \<times> string"

fun run_tools :: "(env \<times> tool_call) list \<Rightarrow> world \<Rightarrow> world" where
  "run_tools [] w = w"
| "run_tools ((e, c) # cs) w = run_tools cs (snd (call_tool e c w))"

fun bookings_of :: "(env \<times> tool_call) list \<Rightarrow> booking list" where
  "bookings_of [] = []"
| "bookings_of ((e, Confirm_patient p d dt t) # cs) = (p, d, dt, t) # bookings_of cs"
| "bookings_of ((e, c) # cs) = bookings_of cs"

fun all_saved :: "(env \<times> tool_call) list \<Rightarrow> world \<Rightarrow> bool" where
  "all_saved [] w = True"
| "all_saved ((e, Confirm_patient p d dt t) # cs) w =
     (fst (save_to_json_try e p d dt t w) = Inr ()
      \<and> all_saved cs (snd (call_tool e (Confirm_patient p d dt t) w)))"
| "all_saved ((e, c) # cs) w = all_saved cs (snd (call_tool e c w))"

text \<open>
  Reading the four fields of a stored object by key, as a reader of the file does
  (\<open>r["patient"]\<close>, \<open>r["doctor"]\<close>, \<open>r["date"]\<close>, \<open>r["time"]\<close>).
\<close>

definition get_str :: "(string \<times> json) list \<Rightarrow> string \<Rightarrow> string option" where
  "get_str kvs k = (case map_of kvs k of Some (JStr s) \<Rightarrow> Some s | _ \<Rightarrow> None)"

definition read_fields :: "json \<Rightarrow> booking option" where
  "read_fields v =
     (case v of
        JDict kvs \<Rightarrow>
          (case get_str kvs ''patient'' of None \<Rightarrow> None | Some p \<Rightarrow>
           case get_str kvs ''doctor'' of None \<Rightarrow> None | Some d \<Rightarrow>
           case get_str kvs ''date'' of None \<Rightarrow> None | Some dt \<Rightarrow>
           case get_str kvs ''time'' of None \<Rightarrow> None | Some t \<Rightarrow> Some (p, d, dt, t))
      | _ \<Rightarrow> None)"

text \<open>An object of exactly the shape save\_to\_json writes: the four keys, in this order.\<close>

definition is_appointment_object :: "json \<Rightarrow> bool" where
  "is_appointment_object v =
     (case read_fields v of None \<Rightarrow> False | Some a \<Rightarrow> v = appointment_record a)"

section \<open>The chat session\<close>

text \<open>
  \<open>Runner.run(agent, input)\<close> accepts a string or a list of earlier input items. What the
  agent answers, or the exception the run raises (a rejected API key, a model error), is
  a parameter. \<open>runner_inputs\<close> records the inputs the runner was called with.
\<close>

datatype runner_input = Input_text string | Input_items "(string \<times> string) list"

type_synonym agent = "runner_input \<Rightarrow> py_exception + string"

record session_state =
  history :: "(string \<times> string) list option"
  runner_inputs :: "runner_input list"

datatype run_end = Rerun | Script_end | Uncaught py_exception

definition thinking :: string where
  "thinking = ''thinking...''"

definition get_response ::
  "agent \<Rightarrow> string \<Rightarrow> session_state \<Rightarrow> (py_exception + string) \<times> session_state" where
  "get_response ag user_input s =
     (ag (Input_text user_input),
      s\<lparr>runner_inputs := runner_inputs s @ [Input_text user_input]\<rparr>)"

text \<open>Lines 186 to 192, on the history \<open>h\<close> of the session.\<close>

definition answer_pending ::
  "agent \<Rightarrow> (string \<times> string) list \<Rightarrow> session_state \<Rightarrow> run_end \<times> session_state" where
  "answer_pending ag h s =
     (if h \<noteq> [] \<and> snd (last h) = thinking
      then (let last_user_message = fst (last h)
            in case get_response ag last_user_message s of
                 (Inl x, s') \<Rightarrow> (Uncaught x, s')
               | (Inr response, s') \<Rightarrow>
                   (Rerun,
                    s'\<lparr>history := Some (h[length h - 1 := (last_user_message, response)])\<rparr>))
      else (Script_end, s))"

text \<open>
  One run of the script (lines 170 to 192) with what \<open>st.chat_input\<close> returns: \<open>None\<close>, or
  the text the user submitted. \<open>st.rerun()\<close> ends the run; the framework then runs the
  script again with no input. An exception the script does not catch ends the run too; the
  session state keeps what the run had stored.
\<close>

definition script_run ::
  "agent \<Rightarrow> string option \<Rightarrow> session_state \<Rightarrow> run_end \<times> session_state" where
  "script_run ag user_input s =
     (let h = (case history s of None \<Rightarrow> [] | Some h \<Rightarrow> h);
          s1 = s\<lparr>history := Some h\<rparr>
      in case user_input of
           None \<Rightarrow> answer_pending ag h s1
         | Some u \<Rightarrow>
             if u \<noteq> [] then (Rerun, s1\<lparr>history := Some (h @ [(u, thinking)])\<rparr>)
             else answer_pending ag h s1)"

definition pending :: "string \<times> string \<Rightarrow> bool" where
  "pending turn = (snd turn = thinking)"

text \<open>No turn but the last one is pending.\<close>

definition only_last_pending :: "(string \<times> string) list \<Rightarrow> bool" where
  "only_last_pending h = list_all (\<lambda>turn. \<not> pending turn) (butlast h)"

section \<open>Example values\<close>

definition new_world :: world where
  "new_world = \<lparr>appointments_file = Missing, stdout = [], post_calls = []\<rparr>"

definition env_with :: "http_outcome \<Rightarrow> env" where
  "env_with r =
     \<lparr>http = (\<lambda>req. r), open_read = None, open_write = None, dump_fault = None,
      print_fault = None\<rparr>"

definition read_only_env :: env where
  "read_only_env =
     \<lparr>http = (\<lambda>req. Responded 200), open_read = None,
      open_write = Some (PyException ''PermissionError''
                           (''[Errno 13] Permission denied: ''
                            @ [CHR 0x27] @ ''appointments.json'' @ [CHR 0x27])),
      dump_fault = None, print_fault = None\<rparr>"

text \<open>The same, with standard output on a full disk.\<close>

definition mute_read_only_env :: env where
  "mute_read_only_env =
     read_only_env
       \<lparr>print_fault := Some (PyException ''OSError'' ''[Errno 28] No space left on device'')\<rparr>"

text \<open>A file that holds a list this program did not write.\<close>

definition foreign_file_world :: world where
  "foreign_file_world =
     \<lparr>appointments_file = Holds Other_layout (JList [JNum 1, JStr ''x'']),
      stdout = [], post_calls = []\<rparr>"

definition old_file_world :: world where
  "old_file_world =
     \<lparr>appointments_file =
        Holds Other_layout (JList [appointment_record (''Omar'', ''Dr. Khan'', ''Friday'', ''8:00 PM'')]),
      stdout = [], post_calls = []\<rparr>"

definition two_bookings :: "(env \<times> tool_call) list" where
  "two_bookings =
     [(env_with (Responded 200), Confirm_patient ''Ali'' ''Dr. Khan'' ''Monday'' ''11:00 AM''),
      (env_with (Responded 500), Get_doctors),
      (env_with (Responded 500), Send_doctor_request ''Sara'' ''Dr. Ahmed'' ''Saturday'' ''10:30 AM''),
      (env_with (Responded 200), Confirm_patient ''Sara'' ''Dr. Ahmed'' ''Saturday'' ''10:30 AM'')]"

definition new_session :: session_state where
  "new_session = \<lparr>history = None, runner_inputs = []\<rparr>"

definition stale_session :: session_state where
  "stale_session = \<lparr>history = Some [(''hi'', thinking)], runner_inputs = [Input_text ''hi'']\<rparr>"

definition booking_session :: session_state where
  "booking_session =
     \<lparr>history = Some [(''hi'', ''Hello, how can I help?''), (''book Dr. Khan'', thinking)],
      runner_inputs = [Input_text ''hi'']\<rparr>"

definition failing_agent :: agent where
  "failing_agent inp = Inl (PyException ''AuthenticationError'' ''Error code: 401'')"

definition replying_agent :: "string \<Rightarrow> agent" where
  "replying_agent reply inp = Inr reply"

section \<open>The webhook notification\<close>

lemma send_doctor_request_eq:
  "send_doctor_request e p d dt t w =
     (case http e (webhook_request p d dt t) of
        Responded code \<Rightarrow>
          if code = 200 then Inr (check_mark @ '' Doctor notified via webhook!'')
          else Inr (cross_mark @ '' Doctor notification failed (status code ''
                      @ str_int code @ '')'')
      | Raised x \<Rightarrow> Inr (cross_mark @ '' Webhook error: '' @ py_str x),
      w\<lparr>post_calls := post_calls w @ [webhook_request p d dt t]\<rparr>)"
  by (simp add: send_doctor_request_def try_except_def py_bind_def requests_post_def
        py_return_def webhook_request_def Let_def split: http_outcome.splits)

lemma marks_differ: "check_mark @ a \<noteq> cross_mark @ b"
  by (simp add: check_mark_def cross_mark_def)

lemma str_int_500: "str_int 500 = ''500''"
  by (simp add: str_int_def digit_char_def)

text \<open>
  Claim C1. Whatever the webhook and the transport do, send\_doctor\_request returns a string
  and raises nothing. On status 200 it returns the success string; on any other status the
  rejection string, which contains the decimal status code; on an exception raised by
  \<open>requests.post\<close> the transport failure string, which contains the text of the exception.
  The success string is returned on status 200 only.
\<close>

theorem send_doctor_request_outcome:
  "(http e (webhook_request p d dt t) = Responded 200 \<longrightarrow>
      fst (send_doctor_request e p d dt t w)
        = Inr (check_mark @ '' Doctor notified via webhook!''))
   \<and> (\<forall>code. http e (webhook_request p d dt t) = Responded code \<and> code \<noteq> 200 \<longrightarrow>
         fst (send_doctor_request e p d dt t w)
           = Inr (cross_mark @ '' Doctor notification failed (status code ''
                    @ str_int code @ '')'')
         \<and> sublist (str_int code)
             (cross_mark @ '' Doctor notification failed (status code ''
                @ str_int code @ '')''))
   \<and> (\<forall>x. http e (webhook_request p d dt t) = Raised x \<longrightarrow>
         fst (send_doctor_request e p d dt t w)
           = Inr (cross_mark @ '' Webhook error: '' @ py_str x)
         \<and> sublist (py_str x) (cross_mark @ '' Webhook error: '' @ py_str x))
   \<and> (fst (send_doctor_request e p d dt t w)
         = Inr (check_mark @ '' Doctor notified via webhook!'')
        \<longleftrightarrow> http e (webhook_request p d dt t) = Responded 200)
   \<and> (\<exists>msg. fst (send_doctor_request e p d dt t w) = Inr msg)"
proof -
  have sub: "sublist s (a @ b @ s @ c)" for s a b c :: string
    using sublist_appendI[of s "a @ b" c] by simp
  have c1: "http e (webhook_request p d dt t) = Responded 200 \<longrightarrow>
      fst (send_doctor_request e p d dt t w)
        = Inr (check_mark @ '' Doctor notified via webhook!'')"
    by (simp add: send_doctor_request_eq)
  have sub2: "sublist s (a @ b @ s)" for s a b :: string
    using sublist_appendI[of s "a @ b" "[]"] by simp
  have c2: "\<forall>code. http e (webhook_request p d dt t) = Responded code \<and> code \<noteq> 200 \<longrightarrow>
         fst (send_doctor_request e p d dt t w)
           = Inr (cross_mark @ '' Doctor notification failed (status code ''
                    @ str_int code @ '')'')
         \<and> sublist (str_int code)
             (cross_mark @ '' Doctor notification failed (status code ''
                @ str_int code @ '')'')"
  proof (intro allI impI conjI)
    fix code
    assume "http e (webhook_request p d dt t) = Responded code \<and> code \<noteq> 200"
    then show "fst (send_doctor_request e p d dt t w)
           = Inr (cross_mark @ '' Doctor notification failed (status code ''
                    @ str_int code @ '')'')"
      by (simp add: send_doctor_request_eq)
    show "sublist (str_int code)
             (cross_mark @ '' Doctor notification failed (status code ''
                @ str_int code @ '')'')"
      by (rule sub)
  qed
  have c3: "\<forall>x. http e (webhook_request p d dt t) = Raised x \<longrightarrow>
         fst (send_doctor_request e p d dt t w)
           = Inr (cross_mark @ '' Webhook error: '' @ py_str x)
         \<and> sublist (py_str x) (cross_mark @ '' Webhook error: '' @ py_str x)"
  proof (intro allI impI conjI)
    fix x
    assume "http e (webhook_request p d dt t) = Raised x"
    then show "fst (send_doctor_request e p d dt t w)
           = Inr (cross_mark @ '' Webhook error: '' @ py_str x)"
      by (simp add: send_doctor_request_eq)
    show "sublist (py_str x) (cross_mark @ '' Webhook error: '' @ py_str x)"
      by (rule sub2)
  qed
  have c4: "fst (send_doctor_request e p d dt t w)
         = Inr (check_mark @ '' Doctor notified via webhook!'')
        \<longleftrightarrow> http e (webhook_request p d dt t) = Responded 200"
    by (cases "http e (webhook_request p d dt t)")
       (simp_all add: send_doctor_request_eq marks_differ marks_differ[symmetric])
  have c5: "\<exists>msg. fst (send_doctor_request e p d dt t w) = Inr msg"
    by (cases "http e (webhook_request p d dt t)") (simp_all add: send_doctor_request_eq)
  from c1 c2 c3 c4 c5 show ?thesis by blast
qed

theorem send_doctor_request_outcome_witness:
  "fst (send_doctor_request (env_with (Responded 200))
          ''Ali'' ''Dr. Khan'' ''Monday'' ''11:00 AM'' new_world)
     = Inr (check_mark @ '' Doctor notified via webhook!'')
   \<and> fst (send_doctor_request (env_with (Responded 500))
            ''Ali'' ''Dr. Khan'' ''Monday'' ''11:00 AM'' new_world)
     = Inr (cross_mark @ '' Doctor notification failed (status code 500)'')
   \<and> sublist ''500'' (cross_mark @ '' Doctor notification failed (status code 500)'')
   \<and> fst (send_doctor_request
            (env_with (Raised (PyException ''ConnectionError'' ''timed out'')))
            ''Ali'' ''Dr. Khan'' ''Monday'' ''11:00 AM'' new_world)
     = Inr (cross_mark @ '' Webhook error: timed out'')"
  using send_doctor_request_outcome
          [of "env_with (Responded 200)"
              "''Ali''" "''Dr. Khan''" "''Monday''" "''11:00 AM''" new_world]
        send_doctor_request_outcome
          [of "env_with (Responded 500)"
              "''Ali''" "''Dr. Khan''" "''Monday''" "''11:00 AM''" new_world]
        send_doctor_request_outcome
          [of "env_with (Raised (PyException ''ConnectionError'' ''timed out''))"
              "''Ali''" "''Dr. Khan''" "''Monday''" "''11:00 AM''" new_world]
  by (simp add: env_with_def str_int_500)


section \<open>The doctor directory\<close>

text \<open>
  Claim C5. get\_doctors takes no argument and is a constant: calling the tool returns the
  same directory for every state of the outside and leaves the world as it was. The
  directory is not empty, its names are distinct, and every doctor has a non-empty specialty
  and at least one availability window; every window has a day range and at least one
  period with a time range.
\<close>

theorem get_doctors_directory:
  "get_doctors \<noteq> []
   \<and> distinct (map fst get_doctors)
   \<and> list_all (\<lambda>entry. specialty (snd entry) \<noteq> []
                 \<and> availability (snd entry) \<noteq> []
                 \<and> list_all (\<lambda>window. fst window \<noteq> [] \<and> snd window \<noteq> []
                               \<and> list_all (\<lambda>period. fst period \<noteq> [] \<and> snd period \<noteq> [])
                                   (snd window))
                     (availability (snd entry)))
       get_doctors
   \<and> (\<forall>e w. call_tool e Get_doctors w = (Inr (Directory get_doctors), w))"
  by (simp add: get_doctors_def py_return_def call_tool.simps)

section \<open>The appointment store\<close>

lemma confirm_patient_cases:
  "confirm_patient e p d dt t w =
     (case save_to_json_try e p d dt t w of
        (Inr u, w') \<Rightarrow>
          (Inr (check_mark @ '' Patient notified via WhatsApp (via webhook confirmation).''), w')
      | (Inl x, w') \<Rightarrow>
          (case print_fault e of
             None \<Rightarrow>
               (Inr (check_mark
                     @ '' Patient notified via WhatsApp (via webhook confirmation).''),
                w'\<lparr>stdout := stdout w' @ [''JSON save error: '' @ py_str x]\<rparr>)
           | Some y \<Rightarrow>
               (Inr (cross_mark @ '' Failed to notify patient: '' @ py_str y), w')))"
  by (simp add: confirm_patient_def save_to_json_def try_except_def py_bind_def py_return_def
        py_print_def Let_def split: prod.splits sum.splits option.splits)

lemma save_to_json_cases:
  "save_to_json e p d dt t w =
     (case save_to_json_try e p d dt t w of
        (Inr u, w') \<Rightarrow> (Inr (), w')
      | (Inl x, w') \<Rightarrow>
          (case print_fault e of
             None \<Rightarrow> (Inr (), w'\<lparr>stdout := stdout w' @ [''JSON save error: '' @ py_str x]\<rparr>)
           | Some y \<Rightarrow> (Inl y, w')))"
  by (simp add: save_to_json_def try_except_def py_print_def
        split: prod.splits sum.splits option.splits)

lemma confirm_patient_saved:
  "fst (save_to_json_try e p d dt t w) = Inr () \<Longrightarrow>
     confirm_patient e p d dt t w =
       (Inr (check_mark @ '' Patient notified via WhatsApp (via webhook confirmation).''),
        snd (save_to_json_try e p d dt t w))"
  by (cases "save_to_json_try e p d dt t w") (simp add: confirm_patient_cases)

lemma confirm_patient_returns: "\<exists>msg. fst (confirm_patient e p d dt t w) = Inr msg"
  by (simp add: confirm_patient_cases split: prod.splits sum.splits option.splits)

lemma save_to_json_try_cases:
  "save_to_json_try e p d dt t w =
     (case appointments_file w of
        Missing \<Rightarrow> json_dump_open e (JList [appointment_record (p, d, dt, t)]) w
      | Holds lay v \<Rightarrow>
          (case open_read e of
             Some x \<Rightarrow> (Inl x, w)
           | None \<Rightarrow>
               (case py_append v (appointment_record (p, d, dt, t)) of
                  Inl x \<Rightarrow> (Inl x, w)
                | Inr data \<Rightarrow> json_dump_open e data w))
      | Corrupt msg \<Rightarrow>
          (case open_read e of
             Some x \<Rightarrow> (Inl x, w)
           | None \<Rightarrow> (Inl (PyException ''JSONDecodeError'' msg), w)))"
  by (simp add: save_to_json_try_def py_bind_def json_load_open_def Let_def
        split: file_state.splits option.splits sum.splits)

lemma json_dump_open_ok:
  "fst (json_dump_open e data w) = Inr () \<longleftrightarrow> open_write e = None \<and> dump_fault e = None"
  by (simp add: json_dump_open_def split: option.splits prod.splits)

lemma py_append_ok: "py_append v x = Inr y \<longleftrightarrow> (\<exists>xs. v = JList xs \<and> y = JList (xs @ [x]))"
  by (cases v) auto

lemma saved_iff:
  "fst (save_to_json_try e p d dt t w) = Inr () \<longleftrightarrow>
     open_write e = None \<and> dump_fault e = None
     \<and> (appointments_file w = Missing
        \<or> (open_read e = None \<and> (\<exists>lay xs. appointments_file w = Holds lay (JList xs))))"
  by (auto simp: save_to_json_try_cases json_dump_open_ok py_append_ok
        split: file_state.splits option.splits sum.splits)

lemma saved_step:
  assumes "fst (save_to_json_try e p d dt t w) = Inr ()"
  shows "\<exists>xs. stored w = Some xs
           \<and> snd (confirm_patient e p d dt t w)
               = w\<lparr>appointments_file :=
                     Holds (Indent 2) (JList (xs @ [appointment_record (p, d, dt, t)]))\<rparr>"
proof -
  from assms have ok: "open_write e = None" "dump_fault e = None"
    and disj: "appointments_file w = Missing
        \<or> (open_read e = None \<and> (\<exists>lay xs. appointments_file w = Holds lay (JList xs)))"
    by (simp_all add: saved_iff)
  have snd_eq: "snd (confirm_patient e p d dt t w) = snd (save_to_json_try e p d dt t w)"
    by (simp add: confirm_patient_saved[OF assms])
  from disj show ?thesis
  proof
    assume m: "appointments_file w = Missing"
    then show ?thesis using ok
      by (simp add: snd_eq stored_def save_to_json_try_cases json_dump_open_def)
  next
    assume "open_read e = None \<and> (\<exists>lay xs. appointments_file w = Holds lay (JList xs))"
    then obtain lay xs where "open_read e = None" "appointments_file w = Holds lay (JList xs)"
      by blast
    then show ?thesis using ok
      by (simp add: snd_eq stored_def save_to_json_try_cases json_dump_open_def)
  qed
qed

lemma stored_update [simp]:
  "stored (w\<lparr>appointments_file := Holds lay (JList ys)\<rparr>) = Some ys"
  by (simp add: stored_def)

lemma call_tool_confirm [simp]:
  "snd (call_tool e (Confirm_patient p d dt t) w) = snd (confirm_patient e p d dt t w)"
  by (simp add: py_bind_def py_return_def split: prod.splits sum.splits)

lemma call_tool_get_doctors [simp]: "snd (call_tool e Get_doctors w) = w"
  by (simp add: py_return_def)

lemma call_tool_send [simp]:
  "snd (call_tool e (Send_doctor_request p d dt t) w)
     = w\<lparr>post_calls := post_calls w @ [webhook_request p d dt t]\<rparr>"
  by (simp add: py_bind_def py_return_def send_doctor_request_eq split: http_outcome.splits)

declare call_tool.simps [simp del]

lemma stored_post_calls [simp]: "stored (w\<lparr>post_calls := ps\<rparr>) = stored w"
  by (simp add: stored_def)

lemma run_tools_stored:
  "stored w = Some xs \<Longrightarrow> all_saved cs w \<Longrightarrow>
     stored (run_tools cs w) = Some (xs @ map appointment_record (bookings_of cs))"
proof (induction cs arbitrary: w xs)
  case Nil
  then show ?case by simp
next
  case (Cons c cs)
  obtain e tc where c: "c = (e, tc)" by (cases c)
  show ?case
  proof (cases tc)
    case Get_doctors
    with Cons.prems c have "all_saved cs w" by simp
    from Cons.IH[OF Cons.prems(1) this] show ?thesis by (simp add: c Get_doctors)
  next
    case (Send_doctor_request p d dt t)
    let ?w = "w\<lparr>post_calls := post_calls w @ [webhook_request p d dt t]\<rparr>"
    from Cons.prems c Send_doctor_request have "all_saved cs ?w" "stored ?w = Some xs"
      by simp_all
    from Cons.IH[OF this(2) this(1)] show ?thesis by (simp add: c Send_doctor_request)
  next
    case (Confirm_patient p d dt t)
    from Cons.prems(2) c Confirm_patient
    have s1: "fst (save_to_json_try e p d dt t w) = Inr ()"
      and rest: "all_saved cs (snd (confirm_patient e p d dt t w))" by simp_all
    from saved_step[OF s1] Cons.prems(1)
    have w': "snd (confirm_patient e p d dt t w)
               = w\<lparr>appointments_file :=
                     Holds (Indent 2) (JList (xs @ [appointment_record (p, d, dt, t)]))\<rparr>"
      by auto
    have "stored (snd (confirm_patient e p d dt t w))
            = Some (xs @ [appointment_record (p, d, dt, t)])"
      by (simp add: w')
    from Cons.IH[OF this rest] show ?thesis by (simp add: c Confirm_patient)
  qed
qed

lemma read_fields_record [simp]: "read_fields (appointment_record a) = Some a"
  by (cases a) (simp add: read_fields_def appointment_record_def get_str_def)

lemma is_appointment_object_record [simp]: "is_appointment_object (appointment_record a)"
  by (simp add: is_appointment_object_def)

text \<open>
  Claim C3. Start from any collection (the list in the file, or the empty one when there
  is no file) and run any sequence of tool calls in which every confirm\_patient call
  completes its save. The collection afterwards is the starting one followed by one record
  per confirm\_patient call, in call order: its length grew by the number of these calls and
  the earlier records are its unchanged prefix. get\_doctors and send\_doctor\_request never
  change the file.
\<close>

theorem appointments_append_only:
  assumes "stored w = Some xs" and "all_saved cs w"
  shows "\<exists>ys. stored (run_tools cs w) = Some ys
           \<and> ys = xs @ map appointment_record (bookings_of cs)
           \<and> length ys = length xs + length (bookings_of cs)
           \<and> take (length xs) ys = xs
           \<and> (\<forall>e w'. appointments_file (snd (call_tool e Get_doctors w')) = appointments_file w')
           \<and> (\<forall>e p d dt t w'.
                 appointments_file (snd (call_tool e (Send_doctor_request p d dt t) w'))
                   = appointments_file w')"
  using run_tools_stored[OF assms] by simp

lemma two_bookings_saved: "all_saved two_bookings old_file_world"
proof -
  have first: "fst (save_to_json_try (env_with (Responded 200))
                 ''Ali'' ''Dr. Khan'' ''Monday'' ''11:00 AM'' old_file_world) = Inr ()"
    by (simp add: saved_iff env_with_def old_file_world_def)
  show ?thesis
    by (simp add: two_bookings_def first confirm_patient_saved[OF first])
       (simp add: saved_iff env_with_def old_file_world_def save_to_json_try_cases
          json_dump_open_def)
qed

theorem appointments_append_only_witness:
  "stored old_file_world = Some [appointment_record (''Omar'', ''Dr. Khan'', ''Friday'', ''8:00 PM'')]
   \<and> all_saved two_bookings old_file_world
   \<and> stored (run_tools two_bookings old_file_world)
       = Some [appointment_record (''Omar'', ''Dr. Khan'', ''Friday'', ''8:00 PM''),
               appointment_record (''Ali'', ''Dr. Khan'', ''Monday'', ''11:00 AM''),
               appointment_record (''Sara'', ''Dr. Ahmed'', ''Saturday'', ''10:30 AM'')]"
proof -
  have s: "stored old_file_world
             = Some [appointment_record (''Omar'', ''Dr. Khan'', ''Friday'', ''8:00 PM'')]"
    by (simp add: old_file_world_def stored_def)
  have b: "bookings_of two_bookings
             = [(''Ali'', ''Dr. Khan'', ''Monday'', ''11:00 AM''),
                (''Sara'', ''Dr. Ahmed'', ''Saturday'', ''10:30 AM'')]"
    by (simp add: two_bookings_def)
  from appointments_append_only[OF s two_bookings_saved] s two_bookings_saved b
  show ?thesis by simp
qed

text \<open>
  Claim C4. After such a sequence with at least one booking, \<open>json.load(open(file))\<close>
  returns a list whose elements after the starting collection, read by key, are exactly the
  bookings passed to confirm\_patient, in call order.
\<close>

theorem appointments_round_trip:
  assumes "stored w = Some xs" and "all_saved cs w"
    and "open_read e = None" and "bookings_of cs \<noteq> []"
  shows "\<exists>ys. fst (json_load_open e (run_tools cs w)) = Inr (JList ys)
           \<and> map read_fields (drop (length xs) ys) = map Some (bookings_of cs)"
proof -
  have st: "stored (run_tools cs w) = Some (xs @ map appointment_record (bookings_of cs))"
    by (rule run_tools_stored[OF assms(1,2)])
  with assms(4) obtain lay where
    "appointments_file (run_tools cs w)
       = Holds lay (JList (xs @ map appointment_record (bookings_of cs)))"
    by (auto simp: stored_def split: file_state.splits json.splits)
  with assms(3) show ?thesis
    by (simp add: json_load_open_def comp_def)
qed

theorem appointments_round_trip_witness:
  "fst (json_load_open (env_with (Responded 200)) (run_tools two_bookings old_file_world))
     = Inr (JList [appointment_record (''Omar'', ''Dr. Khan'', ''Friday'', ''8:00 PM''),
               appointment_record (''Ali'', ''Dr. Khan'', ''Monday'', ''11:00 AM''),
               appointment_record (''Sara'', ''Dr. Ahmed'', ''Saturday'', ''10:30 AM'')])
   \<and> map read_fields
        (drop 1 [appointment_record (''Omar'', ''Dr. Khan'', ''Friday'', ''8:00 PM''),
                 appointment_record (''Ali'', ''Dr. Khan'', ''Monday'', ''11:00 AM''),
                 appointment_record (''Sara'', ''Dr. Ahmed'', ''Saturday'', ''10:30 AM'')])
       = [Some (''Ali'', ''Dr. Khan'', ''Monday'', ''11:00 AM''),
          Some (''Sara'', ''Dr. Ahmed'', ''Saturday'', ''10:30 AM'')]"
proof -
  have s: "stored old_file_world
             = Some [appointment_record (''Omar'', ''Dr. Khan'', ''Friday'', ''8:00 PM'')]"
    by (simp add: old_file_world_def stored_def)
  have b: "bookings_of two_bookings
             = [(''Ali'', ''Dr. Khan'', ''Monday'', ''11:00 AM''),
                (''Sara'', ''Dr. Ahmed'', ''Saturday'', ''10:30 AM'')]"
    by (simp add: two_bookings_def)
  have r: "open_read (env_with (Responded 200)) = None" by (simp add: env_with_def)
  have n: "bookings_of two_bookings \<noteq> []" by (simp add: b)
  from appointments_round_trip[OF s two_bookings_saved r n] obtain ys where
    ys: "fst (json_load_open (env_with (Responded 200)) (run_tools two_bookings old_file_world))
           = Inr (JList ys)"
      "map read_fields (drop 1 ys) = map Some (bookings_of two_bookings)"
    by auto
  have "stored (run_tools two_bookings old_file_world)
          = Some ([appointment_record (''Omar'', ''Dr. Khan'', ''Friday'', ''8:00 PM'')]
                  @ map appointment_record (bookings_of two_bookings))"
    by (rule run_tools_stored[OF s two_bookings_saved])
  then show ?thesis using ys r
    by (auto simp: b stored_def json_load_open_def split: file_state.splits json.splits)
qed



lemma save_to_json_try_failed:
  assumes "fst (save_to_json_try e p d dt t w) = Inl x"
  shows "stdout (snd (save_to_json_try e p d dt t w)) = stdout w
         \<and> post_calls (snd (save_to_json_try e p d dt t w)) = post_calls w
         \<and> (appointments_file (snd (save_to_json_try e p d dt t w)) = appointments_file w
            \<or> (\<exists>left. appointments_file (snd (save_to_json_try e p d dt t w)) = Corrupt left))"
  using assms
  by (auto simp: save_to_json_try_cases json_dump_open_def
        split: file_state.splits option.splits sum.splits prod.splits)

lemma read_only_try:
  "save_to_json_try read_only_env p d dt t new_world
     = (Inl (PyException ''PermissionError''
               (''[Errno 13] Permission denied: ''
                @ [CHR 0x27] @ ''appointments.json'' @ [CHR 0x27])), new_world)"
  by (simp add: save_to_json_try_cases new_world_def read_only_env_def json_dump_open_def)

lemma mute_read_only_try:
  "save_to_json_try mute_read_only_env p d dt t new_world
     = (Inl (PyException ''PermissionError''
               (''[Errno 13] Permission denied: ''
                @ [CHR 0x27] @ ''appointments.json'' @ [CHR 0x27])), new_world)"
  by (simp add: save_to_json_try_cases new_world_def mute_read_only_env_def read_only_env_def
        json_dump_open_def)

text \<open>
  Claim C2, as amended. confirm\_patient never raises. When the \<open>try\<close> of save\_to\_json
  completes, it returns the success string and the file holds the earlier collection
  followed by the new record. When the \<open>try\<close> raises, the exception is caught inside
  save\_to\_json and printed as a line \<open>JSON save error: ...\<close>, and confirm\_patient still
  returns the success string: the caller is not told of the failed write. Only when that
  \<open>print\<close> raises as well does confirm\_patient return its failure string, and then with the
  text of the exception of \<open>print\<close>.
\<close>

theorem confirm_patient_outcome:
  "(\<exists>msg. fst (confirm_patient e p d dt t w) = Inr msg)
   \<and> (case fst (save_to_json_try e p d dt t w) of
         Inr u \<Rightarrow>
           fst (confirm_patient e p d dt t w)
             = Inr (check_mark @ '' Patient notified via WhatsApp (via webhook confirmation).'')
           \<and> (\<exists>xs. stored w = Some xs
                \<and> snd (confirm_patient e p d dt t w)
                    = w\<lparr>appointments_file :=
                          Holds (Indent 2) (JList (xs @ [appointment_record (p, d, dt, t)]))\<rparr>)
       | Inl x \<Rightarrow>
           (case print_fault e of
              None \<Rightarrow>
                fst (confirm_patient e p d dt t w)
                  = Inr (check_mark
                         @ '' Patient notified via WhatsApp (via webhook confirmation).'')
                \<and> stdout (snd (confirm_patient e p d dt t w))
                    = stdout w @ [''JSON save error: '' @ py_str x]
            | Some y \<Rightarrow>
                fst (confirm_patient e p d dt t w)
                  = Inr (cross_mark @ '' Failed to notify patient: '' @ py_str y)
                \<and> stdout (snd (confirm_patient e p d dt t w)) = stdout w))"
proof (intro conjI)
  show "\<exists>msg. fst (confirm_patient e p d dt t w) = Inr msg"
    by (rule confirm_patient_returns)
next
  show "case fst (save_to_json_try e p d dt t w) of
         Inr u \<Rightarrow>
           fst (confirm_patient e p d dt t w)
             = Inr (check_mark @ '' Patient notified via WhatsApp (via webhook confirmation).'')
           \<and> (\<exists>xs. stored w = Some xs
                \<and> snd (confirm_patient e p d dt t w)
                    = w\<lparr>appointments_file :=
                          Holds (Indent 2) (JList (xs @ [appointment_record (p, d, dt, t)]))\<rparr>)
       | Inl x \<Rightarrow>
           (case print_fault e of
              None \<Rightarrow>
                fst (confirm_patient e p d dt t w)
                  = Inr (check_mark
                         @ '' Patient notified via WhatsApp (via webhook confirmation).'')
                \<and> stdout (snd (confirm_patient e p d dt t w))
                    = stdout w @ [''JSON save error: '' @ py_str x]
            | Some y \<Rightarrow>
                fst (confirm_patient e p d dt t w)
                  = Inr (cross_mark @ '' Failed to notify patient: '' @ py_str y)
                \<and> stdout (snd (confirm_patient e p d dt t w)) = stdout w)"
  proof (cases "fst (save_to_json_try e p d dt t w)")
    case (Inl x)
    from save_to_json_try_failed[OF Inl] Inl show ?thesis
      by (cases "save_to_json_try e p d dt t w")
         (simp add: confirm_patient_cases split: option.splits)
  next
    case (Inr u)
    then have ok: "fst (save_to_json_try e p d dt t w) = Inr ()" by simp
    from saved_step[OF ok] Inr show ?thesis by (simp add: confirm_patient_saved[OF ok])
  qed
qed

theorem confirm_patient_outcome_witness:
  "fst (confirm_patient read_only_env ''Ali'' ''Dr. Khan'' ''Monday'' ''11:00 AM'' new_world)
     = Inr (check_mark @ '' Patient notified via WhatsApp (via webhook confirmation).'')
   \<and> stdout (snd (confirm_patient read_only_env
                     ''Ali'' ''Dr. Khan'' ''Monday'' ''11:00 AM'' new_world))
       = [''JSON save error: [Errno 13] Permission denied: ''
          @ [CHR 0x27] @ ''appointments.json'' @ [CHR 0x27]]
   \<and> fst (confirm_patient mute_read_only_env
            ''Ali'' ''Dr. Khan'' ''Monday'' ''11:00 AM'' new_world)
       = Inr (cross_mark @ '' Failed to notify patient: [Errno 28] No space left on device'')
   \<and> stdout (snd (confirm_patient mute_read_only_env
                     ''Ali'' ''Dr. Khan'' ''Monday'' ''11:00 AM'' new_world))
       = []"
proof -
  have p1: "print_fault read_only_env = None" by (simp add: read_only_env_def)
  have p2: "print_fault mute_read_only_env
              = Some (PyException ''OSError'' ''[Errno 28] No space left on device'')"
    by (simp add: mute_read_only_env_def)
  have s: "stdout new_world = []" by (simp add: new_world_def)
  from confirm_patient_outcome
          [of read_only_env "''Ali''" "''Dr. Khan''" "''Monday''" "''11:00 AM''" new_world]
       confirm_patient_outcome
          [of mute_read_only_env "''Ali''" "''Dr. Khan''" "''Monday''" "''11:00 AM''" new_world]
  show ?thesis
    by (simp add: read_only_try mute_read_only_try p1 p2 s)
qed

text \<open>
  Claim C2 as stated fails: with a file that cannot be opened for writing, the \<open>try\<close> of
  save\_to\_json raises PermissionError, nothing is stored, and confirm\_patient still returns
  the success string.
\<close>

theorem persist_failure_reported_as_success:
  "fst (save_to_json_try read_only_env ''Ali'' ''Dr. Khan'' ''Monday'' ''11:00 AM'' new_world)
     = Inl (PyException ''PermissionError''
              (''[Errno 13] Permission denied: ''
               @ [CHR 0x27] @ ''appointments.json'' @ [CHR 0x27]))
   \<and> appointments_file (snd (confirm_patient read_only_env
                               ''Ali'' ''Dr. Khan'' ''Monday'' ''11:00 AM'' new_world))
       = Missing
   \<and> fst (confirm_patient read_only_env ''Ali'' ''Dr. Khan'' ''Monday'' ''11:00 AM'' new_world)
       = Inr (check_mark @ '' Patient notified via WhatsApp (via webhook confirmation).'')"
  by (simp add: confirm_patient_cases read_only_try)
     (simp add: new_world_def read_only_env_def)

text \<open>
  Claim C7, as amended. After a call whose save completed, the file is the \<open>indent=2\<close> dump
  of one array: the collection read at the start of the call (empty when there was no file)
  followed by one object with the keys patient, doctor, date, time, in this order, and the
  four arguments as string values. The elements read at the start are written back as they
  were: if all of them were such objects, all elements are.
\<close>

theorem save_rewrites_whole_array:
  assumes "fst (save_to_json_try e p d dt t w) = Inr ()"
  shows "\<exists>xs. stored w = Some xs
           \<and> appointments_file (snd (confirm_patient e p d dt t w))
               = Holds (Indent 2)
                   (JList (xs @ [JDict [(''patient'', JStr p), (''doctor'', JStr d),
                                        (''date'', JStr dt), (''time'', JStr t)]]))
           \<and> is_appointment_object
                (JDict [(''patient'', JStr p), (''doctor'', JStr d),
                        (''date'', JStr dt), (''time'', JStr t)])
           \<and> (list_all is_appointment_object xs \<longrightarrow>
                list_all is_appointment_object
                  (xs @ [JDict [(''patient'', JStr p), (''doctor'', JStr d),
                                (''date'', JStr dt), (''time'', JStr t)]]))"
proof -
  have r: "JDict [(''patient'', JStr p), (''doctor'', JStr d),
                  (''date'', JStr dt), (''time'', JStr t)] = appointment_record (p, d, dt, t)"
    by (simp add: appointment_record_def)
  from saved_step[OF assms] show ?thesis
    unfolding r by auto
qed

theorem save_rewrites_whole_array_witness:
  "fst (save_to_json_try (env_with (Responded 200))
          ''Ali'' ''Dr. Khan'' ''Monday'' ''11:00 AM'' old_file_world) = Inr ()
   \<and> appointments_file (snd (confirm_patient (env_with (Responded 200))
                               ''Ali'' ''Dr. Khan'' ''Monday'' ''11:00 AM'' old_file_world))
       = Holds (Indent 2)
           (JList [JDict [(''patient'', JStr ''Omar''), (''doctor'', JStr ''Dr. Khan''),
                          (''date'', JStr ''Friday''), (''time'', JStr ''8:00 PM'')],
                   JDict [(''patient'', JStr ''Ali''), (''doctor'', JStr ''Dr. Khan''),
                          (''date'', JStr ''Monday''), (''time'', JStr ''11:00 AM'')]])
   \<and> list_all is_appointment_object
        [JDict [(''patient'', JStr ''Omar''), (''doctor'', JStr ''Dr. Khan''),
                (''date'', JStr ''Friday''), (''time'', JStr ''8:00 PM'')],
         JDict [(''patient'', JStr ''Ali''), (''doctor'', JStr ''Dr. Khan''),
                (''date'', JStr ''Monday''), (''time'', JStr ''11:00 AM'')]]"
proof -
  have ok: "fst (save_to_json_try (env_with (Responded 200))
          ''Ali'' ''Dr. Khan'' ''Monday'' ''11:00 AM'' old_file_world) = Inr ()"
    by (simp add: saved_iff env_with_def old_file_world_def)
  have st: "stored old_file_world
              = Some [JDict [(''patient'', JStr ''Omar''), (''doctor'', JStr ''Dr. Khan''),
                             (''date'', JStr ''Friday''), (''time'', JStr ''8:00 PM'')]]"
    by (simp add: stored_def old_file_world_def appointment_record_def)
  have old: "list_all is_appointment_object
               [JDict [(''patient'', JStr ''Omar''), (''doctor'', JStr ''Dr. Khan''),
                       (''date'', JStr ''Friday''), (''time'', JStr ''8:00 PM'')]]"
    using is_appointment_object_record[of "(''Omar'', ''Dr. Khan'', ''Friday'', ''8:00 PM'')"]
    by (simp add: appointment_record_def)
  from save_rewrites_whole_array[OF ok] st old ok show ?thesis by auto
qed

text \<open>
  Claim C7 as stated fails: a file that holds the list \<open>[1, "x"]\<close> is read, extended and
  written back by a save that completes, and the array then has elements that are no
  appointment objects.
\<close>

theorem foreign_elements_survive_save:
  "fst (save_to_json_try (env_with (Responded 200))
          ''Ali'' ''Dr. Khan'' ''Monday'' ''11:00 AM'' foreign_file_world) = Inr ()
   \<and> appointments_file (snd (confirm_patient (env_with (Responded 200))
                               ''Ali'' ''Dr. Khan'' ''Monday'' ''11:00 AM'' foreign_file_world))
       = Holds (Indent 2)
           (JList [JNum 1, JStr ''x'',
                   JDict [(''patient'', JStr ''Ali''), (''doctor'', JStr ''Dr. Khan''),
                          (''date'', JStr ''Monday''), (''time'', JStr ''11:00 AM'')]])
   \<and> \<not> list_all is_appointment_object
          [JNum 1, JStr ''x'',
           JDict [(''patient'', JStr ''Ali''), (''doctor'', JStr ''Dr. Khan''),
                  (''date'', JStr ''Monday''), (''time'', JStr ''11:00 AM'')]]"
proof -
  have ok: "fst (save_to_json_try (env_with (Responded 200))
          ''Ali'' ''Dr. Khan'' ''Monday'' ''11:00 AM'' foreign_file_world) = Inr ()"
    by (simp add: saved_iff env_with_def foreign_file_world_def)
  have "\<not> is_appointment_object (JNum 1)"
    by (simp add: is_appointment_object_def read_fields_def)
  then show ?thesis
    by (simp add: ok confirm_patient_saved[OF ok])
       (simp add: save_to_json_try_cases env_with_def foreign_file_world_def
          json_dump_open_def appointment_record_def)
qed

text \<open>
  Claim C10, as amended. confirm\_patient never raises. It returns the fixed success string
  exactly when the \<open>try\<close> of save\_to\_json completes or the \<open>print\<close> of its handler works. So
  with a working standard output the result is the same for all states of the outside: a
  failed save prints its error, leaves the file as it was or truncated by the interrupted
  dump, and is not seen by the caller. The \<open>Failed to notify patient\<close> branch is taken when
  the \<open>try\<close> raises and the \<open>print\<close> of the handler raises too: that exception leaves
  save\_to\_json, and its text is returned in the failure string.
\<close>

theorem confirm_patient_result:
  "(fst (confirm_patient e p d dt t w)
      = Inr (check_mark @ '' Patient notified via WhatsApp (via webhook confirmation).'')
     \<longleftrightarrow> (fst (save_to_json_try e p d dt t w) = Inr () \<or> print_fault e = None))
   \<and> (\<forall>x. fst (confirm_patient e p d dt t w) \<noteq> Inl x)
   \<and> (\<forall>x y. fst (save_to_json_try e p d dt t w) = Inl x \<and> print_fault e = Some y \<longrightarrow>
          fst (save_to_json e p d dt t w) = Inl y
          \<and> fst (confirm_patient e p d dt t w)
              = Inr (cross_mark @ '' Failed to notify patient: '' @ py_str y)
          \<and> stdout (snd (confirm_patient e p d dt t w)) = stdout w)
   \<and> (\<forall>x. fst (save_to_json_try e p d dt t w) = Inl x \<and> print_fault e = None \<longrightarrow>
          fst (save_to_json e p d dt t w) = Inr ()
          \<and> stdout (snd (confirm_patient e p d dt t w))
              = stdout w @ [''JSON save error: '' @ py_str x]
          \<and> (appointments_file (snd (confirm_patient e p d dt t w)) = appointments_file w
             \<or> (\<exists>left. appointments_file (snd (confirm_patient e p d dt t w))
                          = Corrupt left)))
   \<and> (print_fault e = None \<and> print_fault e' = None \<longrightarrow>
          fst (confirm_patient e p d dt t w) = fst (confirm_patient e' p d dt t w'))"
proof (intro conjI allI impI)
  show "fst (confirm_patient e p d dt t w)
      = Inr (check_mark @ '' Patient notified via WhatsApp (via webhook confirmation).'')
     \<longleftrightarrow> (fst (save_to_json_try e p d dt t w) = Inr () \<or> print_fault e = None)"
    by (cases "save_to_json_try e p d dt t w")
       (auto simp: confirm_patient_cases marks_differ marks_differ[symmetric]
          split: sum.splits option.splits)
next
  fix x
  show "fst (confirm_patient e p d dt t w) \<noteq> Inl x"
    using confirm_patient_returns[of e p d dt t w] by auto
next
  fix x y
  assume a: "fst (save_to_json_try e p d dt t w) = Inl x \<and> print_fault e = Some y"
  then have f: "fst (save_to_json_try e p d dt t w) = Inl x" by simp
  from a save_to_json_try_failed[OF f]
  show "fst (save_to_json e p d dt t w) = Inl y"
    and "fst (confirm_patient e p d dt t w)
              = Inr (cross_mark @ '' Failed to notify patient: '' @ py_str y)"
    and "stdout (snd (confirm_patient e p d dt t w)) = stdout w"
    by (cases "save_to_json_try e p d dt t w";
        simp add: confirm_patient_cases save_to_json_cases)+
next
  fix x
  assume a: "fst (save_to_json_try e p d dt t w) = Inl x \<and> print_fault e = None"
  then have f: "fst (save_to_json_try e p d dt t w) = Inl x" by simp
  from a save_to_json_try_failed[OF f]
  show "fst (save_to_json e p d dt t w) = Inr ()"
    and "stdout (snd (confirm_patient e p d dt t w))
              = stdout w @ [''JSON save error: '' @ py_str x]"
    and "appointments_file (snd (confirm_patient e p d dt t w)) = appointments_file w
             \<or> (\<exists>left. appointments_file (snd (confirm_patient e p d dt t w))
                          = Corrupt left)"
    by (cases "save_to_json_try e p d dt t w";
        simp add: confirm_patient_cases save_to_json_cases)+
next
  assume "print_fault e = None \<and> print_fault e' = None"
  then show "fst (confirm_patient e p d dt t w) = fst (confirm_patient e' p d dt t w')"
    by (cases "save_to_json_try e p d dt t w"; cases "save_to_json_try e' p d dt t w'")
       (simp add: confirm_patient_cases split: sum.splits)
qed

theorem confirm_patient_result_witness:
  "fst (confirm_patient mute_read_only_env
          ''Ali'' ''Dr. Khan'' ''Monday'' ''11:00 AM'' new_world)
     = Inr (cross_mark @ '' Failed to notify patient: [Errno 28] No space left on device'')
   \<and> fst (save_to_json read_only_env ''Ali'' ''Dr. Khan'' ''Monday'' ''11:00 AM'' new_world)
       = Inr ()
   \<and> fst (confirm_patient read_only_env ''Ali'' ''Dr. Khan'' ''Monday'' ''11:00 AM'' new_world)
       = fst (confirm_patient (env_with (Responded 200))
                ''Ali'' ''Dr. Khan'' ''Monday'' ''11:00 AM'' old_file_world)"
proof -
  have p1: "print_fault read_only_env = None" by (simp add: read_only_env_def)
  have p2: "print_fault mute_read_only_env
              = Some (PyException ''OSError'' ''[Errno 28] No space left on device'')"
    by (simp add: mute_read_only_env_def)
  have p3: "print_fault (env_with (Responded 200)) = None" by (simp add: env_with_def)
  have t1: "fst (save_to_json_try read_only_env
                   ''Ali'' ''Dr. Khan'' ''Monday'' ''11:00 AM'' new_world)
              = Inl (PyException ''PermissionError''
                       (''[Errno 13] Permission denied: ''
                        @ [CHR 0x27] @ ''appointments.json'' @ [CHR 0x27]))"
    by (simp add: read_only_try)
  have t2: "fst (save_to_json_try mute_read_only_env
                   ''Ali'' ''Dr. Khan'' ''Monday'' ''11:00 AM'' new_world)
              = Inl (PyException ''PermissionError''
                       (''[Errno 13] Permission denied: ''
                        @ [CHR 0x27] @ ''appointments.json'' @ [CHR 0x27]))"
    by (simp add: mute_read_only_try)
  note a = confirm_patient_result
          [of mute_read_only_env "''Ali''" "''Dr. Khan''" "''Monday''" "''11:00 AM''" new_world]
  note b = confirm_patient_result
          [of read_only_env "''Ali''" "''Dr. Khan''" "''Monday''" "''11:00 AM''" new_world
              "env_with (Responded 200)" old_file_world]
  from a t2 p2 have c1: "fst (confirm_patient mute_read_only_env
          ''Ali'' ''Dr. Khan'' ''Monday'' ''11:00 AM'' new_world)
     = Inr (cross_mark @ '' Failed to notify patient: ''
              @ py_str (PyException ''OSError'' ''[Errno 28] No space left on device''))"
    by blast
  from b t1 p1 have c2:
    "fst (save_to_json read_only_env ''Ali'' ''Dr. Khan'' ''Monday'' ''11:00 AM'' new_world)
       = Inr ()"
    by blast
  from b p1 p3 have c3:
    "fst (confirm_patient read_only_env ''Ali'' ''Dr. Khan'' ''Monday'' ''11:00 AM'' new_world)
       = fst (confirm_patient (env_with (Responded 200))
                ''Ali'' ''Dr. Khan'' ''Monday'' ''11:00 AM'' old_file_world)"
    by blast
  from c1 c2 c3 show ?thesis by simp
qed

text \<open>
  Claim C10 as stated fails: with a file that cannot be opened for writing and a standard
  output that cannot be written to, the exception of \<open>print\<close> leaves save\_to\_json and
  confirm\_patient returns the failure string.
\<close>

theorem failure_branch_reached:
  "fst (save_to_json mute_read_only_env ''Ali'' ''Dr. Khan'' ''Monday'' ''11:00 AM'' new_world)
     = Inl (PyException ''OSError'' ''[Errno 28] No space left on device'')
   \<and> fst (confirm_patient mute_read_only_env
            ''Ali'' ''Dr. Khan'' ''Monday'' ''11:00 AM'' new_world)
       = Inr (cross_mark @ '' Failed to notify patient: [Errno 28] No space left on device'')"
  by (simp add: confirm_patient_cases save_to_json_cases mute_read_only_try)
     (simp add: mute_read_only_env_def)

section \<open>The chat session: runs of the script\<close>

lemma script_run_new_input:
  "u \<noteq> [] \<Longrightarrow>
     script_run ag (Some u) s
       = (Rerun, s\<lparr>history := Some ((case history s of None \<Rightarrow> [] | Some h \<Rightarrow> h)
                                     @ [(u, thinking)])\<rparr>)"
  by (simp add: script_run_def Let_def)

lemma script_run_no_input:
  "ui = None \<or> ui = Some [] \<Longrightarrow>
     script_run ag ui s
       = answer_pending ag (case history s of None \<Rightarrow> [] | Some h \<Rightarrow> h)
           (s\<lparr>history := Some (case history s of None \<Rightarrow> [] | Some h \<Rightarrow> h)\<rparr>)"
  by (auto simp: script_run_def Let_def)

lemma last_update_eq: "h \<noteq> [] \<Longrightarrow> h[length h - Suc 0 := x] = butlast h @ [x]"
  by (induction h rule: rev_induct) simp_all

lemma answer_pending_reply:
  assumes "h \<noteq> []" and "last h = (u, thinking)" and "ag (Input_text u) = Inr r"
  shows "answer_pending ag h s
           = (Rerun, s\<lparr>runner_inputs := runner_inputs s @ [Input_text u],
                        history := Some (butlast h @ [(u, r)])\<rparr>)"
  using assms by (simp add: answer_pending_def get_response_def Let_def last_update_eq)

lemma answer_pending_raise:
  assumes "h \<noteq> []" and "last h = (u, thinking)" and "ag (Input_text u) = Inl x"
  shows "answer_pending ag h s
           = (Uncaught x, s\<lparr>runner_inputs := runner_inputs s @ [Input_text u]\<rparr>)"
  using assms by (simp add: answer_pending_def get_response_def Let_def)

lemma answer_pending_idle:
  assumes "h = [] \<or> snd (last h) \<noteq> thinking"
  shows "answer_pending ag h s = (Script_end, s)"
  using assms by (auto simp: answer_pending_def)

text \<open>
  Claim C9. One run of the script calls the runner at most once, and only with the text of
  the user message of the pending last turn: never with a list of earlier turns. When the
  last turn is pending and no new input arrived, the runner is called with exactly that
  message, and the reply it gives for that message replaces the placeholder.
\<close>

theorem agent_gets_latest_message_only:
  "(\<exists>k. runner_inputs (snd (script_run ag ui s)) = runner_inputs s @ k
        \<and> (k = [] \<or> (\<exists>h u. history s = Some h \<and> h \<noteq> [] \<and> last h = (u, thinking)
                          \<and> k = [Input_text u])))
   \<and> (\<forall>h u. history s = Some h \<and> h \<noteq> [] \<and> last h = (u, thinking)
             \<and> (ui = None \<or> ui = Some []) \<longrightarrow>
         runner_inputs (snd (script_run ag ui s)) = runner_inputs s @ [Input_text u]
         \<and> (\<forall>r. ag (Input_text u) = Inr r \<longrightarrow>
               history (snd (script_run ag ui s)) = Some (butlast h @ [(u, r)])))"
proof (intro conjI allI impI)
  show "\<exists>k. runner_inputs (snd (script_run ag ui s)) = runner_inputs s @ k
        \<and> (k = [] \<or> (\<exists>h u. history s = Some h \<and> h \<noteq> [] \<and> last h = (u, thinking)
                          \<and> k = [Input_text u]))"
  proof (cases "ui = None \<or> ui = Some []")
    case False
    then obtain u where "ui = Some u" "u \<noteq> []" by (cases ui) auto
    then show ?thesis by (simp add: script_run_new_input)
  next
    case True
    let ?h = "case history s of None \<Rightarrow> [] | Some h \<Rightarrow> h"
    show ?thesis
    proof (cases "?h \<noteq> [] \<and> snd (last ?h) = thinking")
      case False
      then have "?h = [] \<or> snd (last ?h) \<noteq> thinking" by blast
      from answer_pending_idle[OF this] show ?thesis
        by (simp add: script_run_no_input[OF True])
    next
      case pend: True
      then obtain h where h: "history s = Some h" "h \<noteq> []" "snd (last h) = thinking"
        by (cases "history s") auto
      obtain u where u: "last h = (u, thinking)" using h(3) by (cases "last h") auto
      show ?thesis
      proof (cases "ag (Input_text u)")
        case (Inl x)
        from answer_pending_raise[where ag=ag, OF h(2) u Inl] h u show ?thesis
          by (simp add: script_run_no_input[OF True])
      next
        case (Inr r)
        from answer_pending_reply[where ag=ag, OF h(2) u Inr] h u show ?thesis
          by (simp add: script_run_no_input[OF True])
      qed
    qed
  qed
next
  fix h u
  assume a: "history s = Some h \<and> h \<noteq> [] \<and> last h = (u, thinking) \<and> (ui = None \<or> ui = Some [])"
  then have ui: "ui = None \<or> ui = Some []" and h: "history s = Some h" "h \<noteq> []"
    and u: "last h = (u, thinking)" by auto
  show "runner_inputs (snd (script_run ag ui s)) = runner_inputs s @ [Input_text u]"
  proof (cases "ag (Input_text u)")
    case (Inl x)
    from answer_pending_raise[where ag=ag, OF h(2) u Inl] h show ?thesis
      by (simp add: script_run_no_input[OF ui])
  next
    case (Inr r)
    from answer_pending_reply[where ag=ag, OF h(2) u Inr] h show ?thesis
      by (simp add: script_run_no_input[OF ui])
  qed
  fix r
  assume r: "ag (Input_text u) = Inr r"
  from answer_pending_reply[where ag=ag, OF h(2) u r] h
  show "history (snd (script_run ag ui s)) = Some (butlast h @ [(u, r)])"
    by (simp add: script_run_no_input[OF ui])
qed

theorem agent_gets_latest_message_only_witness:
  "runner_inputs (snd (script_run (replying_agent ''Booked.'') None booking_session))
     = [Input_text ''hi'', Input_text ''book Dr. Khan'']
   \<and> history (snd (script_run (replying_agent ''Booked.'') None booking_session))
       = Some [(''hi'', ''Hello, how can I help?''), (''book Dr. Khan'', ''Booked.'')]"
proof -
  have h: "history booking_session
             = Some [(''hi'', ''Hello, how can I help?''), (''book Dr. Khan'', thinking)]
           \<and> [(''hi'', ''Hello, how can I help?''), (''book Dr. Khan'', thinking)] \<noteq> []
           \<and> last [(''hi'', ''Hello, how can I help?''), (''book Dr. Khan'', thinking)]
               = (''book Dr. Khan'', thinking)
           \<and> ((None :: string option) = None \<or> (None :: string option) = Some [])"
    by (simp add: booking_session_def)
  have r: "replying_agent ''Booked.'' (Input_text ''book Dr. Khan'') = Inr ''Booked.''"
    by (simp add: replying_agent_def)
  from agent_gets_latest_message_only[of "replying_agent ''Booked.''" None booking_session]
  have "runner_inputs (snd (script_run (replying_agent ''Booked.'') None booking_session))
          = runner_inputs booking_session @ [Input_text ''book Dr. Khan'']
        \<and> (\<forall>r. replying_agent ''Booked.'' (Input_text ''book Dr. Khan'') = Inr r \<longrightarrow>
               history (snd (script_run (replying_agent ''Booked.'') None booking_session))
                 = Some (butlast [(''hi'', ''Hello, how can I help?''), (''book Dr. Khan'', thinking)]
                          @ [(''book Dr. Khan'', r)]))"
    using h by blast
  with r show ?thesis by (simp add: booking_session_def)
qed

text \<open>
  Claim C8 at a failing input. The user submits a message; on the rerun the agent run
  raises, which the script does not catch, so the turn stays pending; the user submits a
  second message. The history then holds two pending turns. The next run answers the last
  one only, and the run after that ends with the first turn still pending.
\<close>

theorem stale_pending_turn_after_agent_failure:
  "script_run (replying_agent ''ok'') (Some ''hi'') new_session
     = (Rerun, \<lparr>history = Some [(''hi'', thinking)], runner_inputs = []\<rparr>)
   \<and> script_run failing_agent None \<lparr>history = Some [(''hi'', thinking)], runner_inputs = []\<rparr>
     = (Uncaught (PyException ''AuthenticationError'' ''Error code: 401''), stale_session)
   \<and> script_run (replying_agent ''ok'') (Some ''hello'') stale_session
     = (Rerun, \<lparr>history = Some [(''hi'', thinking), (''hello'', thinking)],
                runner_inputs = [Input_text ''hi'']\<rparr>)
   \<and> length (filter pending [(''hi'', thinking), (''hello'', thinking)]) = 2
   \<and> script_run (replying_agent ''ok'') None
        \<lparr>history = Some [(''hi'', thinking), (''hello'', thinking)],
         runner_inputs = [Input_text ''hi'']\<rparr>
     = (Rerun, \<lparr>history = Some [(''hi'', thinking), (''hello'', ''ok'')],
                runner_inputs = [Input_text ''hi'', Input_text ''hello'']\<rparr>)
   \<and> script_run (replying_agent ''ok'') None
        \<lparr>history = Some [(''hi'', thinking), (''hello'', ''ok'')],
         runner_inputs = [Input_text ''hi'', Input_text ''hello'']\<rparr>
     = (Script_end, \<lparr>history = Some [(''hi'', thinking), (''hello'', ''ok'')],
                     runner_inputs = [Input_text ''hi'', Input_text ''hello'']\<rparr>)
   \<and> pending (''hi'', thinking)"
  by (simp add: script_run_def answer_pending_def get_response_def new_session_def
        stale_session_def failing_agent_def replying_agent_def pending_def thinking_def Let_def)


text \<open>
  What does hold: a run keeps "no turn but the last is pending" as long as new input
  arrives only when the last turn is not pending.
\<close>

lemma only_last_pending_step:
  assumes "history s = Some h" and "only_last_pending h"
    and "ui = None \<or> ui = Some [] \<or> h = [] \<or> \<not> pending (last h)"
  shows "\<exists>h'. history (snd (script_run ag ui s)) = Some h' \<and> only_last_pending h'"
proof (cases "ui = None \<or> ui = Some []")
  case False
  then obtain u where u: "ui = Some u" "u \<noteq> []" by (cases ui) auto
  with assms(3) have "h = [] \<or> \<not> pending (last h)" by auto
  then have "list_all (\<lambda>turn. \<not> pending turn) h"
  proof
    assume "h = []" then show ?thesis by simp
  next
    assume "\<not> pending (last h)"
    show ?thesis
    proof (cases "h = []")
      case True then show ?thesis by simp
    next
      case False
      then have "h = butlast h @ [last h]" by simp
      then have "list_all (\<lambda>turn. \<not> pending turn) h
                   = list_all (\<lambda>turn. \<not> pending turn) (butlast h @ [last h])" by simp
      with assms(2) \<open>\<not> pending (last h)\<close> show ?thesis
        by (simp add: only_last_pending_def)
    qed
  qed
  then show ?thesis using u assms(1)
    by (simp add: script_run_new_input only_last_pending_def)
next
  case True
  show ?thesis
  proof (cases "h \<noteq> [] \<and> snd (last h) = thinking")
    case False
    then have "h = [] \<or> snd (last h) \<noteq> thinking" by blast
    from answer_pending_idle[OF this] assms(1,2) show ?thesis
      by (simp add: script_run_no_input[OF True])
  next
    case pend: True
    then obtain u where u: "last h = (u, thinking)" by (cases "last h") auto
    from pend have ne: "h \<noteq> []" by simp
    show ?thesis
    proof (cases "ag (Input_text u)")
      case (Inl x)
      from answer_pending_raise[where ag=ag, OF ne u Inl] assms(1,2) show ?thesis
        by (simp add: script_run_no_input[OF True])
    next
      case (Inr r)
      from answer_pending_reply[where ag=ag, OF ne u Inr] assms(1,2) show ?thesis
        by (simp add: script_run_no_input[OF True] only_last_pending_def)
    qed
  qed
qed

end
